theory Spec2Isabelle
  imports Main "HOL-Library.Word" "HOL-Library.Sublist"
begin

section \<open>Configuration documents\<close>

text \<open>
  The module \<open>deepmd/utils/compat.py\<close> works on what \<open>json.load\<close> returns: \<open>None\<close>,
  booleans, unbounded integers, floats, strings, lists and dicts with string keys.
  A dict is an association list in insertion order, as a Python dict is; a float is the
  bit pattern of its IEEE-754 binary64. The only thing the module itself does with a
  float is to test it for truth; all float arithmetic is \<open>numpy\<close>'s.
\<close>

datatype json =
    JNull
  | JBool bool
  | JInt int
  | JFloat "64 word"
  | JStr string
  | JList "json list"
  | JDict "(string \<times> json) list"

type_synonym dict = "(string \<times> json) list"

datatype error =
    KeyError string
  | TypeError
  | AttributeError string
  | ZeroDivisionError
  | RuntimeError string
  | OSError string
  | DeprecatedKeyMissing "string list"

text \<open>\<open>k in d\<close>, \<open>d[k]\<close>, \<open>d.get(k, default)\<close>, \<open>d[k] = v\<close> and \<open>d.pop(k)\<close> on a dict.\<close>

definition has_key :: "dict \<Rightarrow> string \<Rightarrow> bool" where
  "has_key d k = (k \<in> set (map fst d))"

definition getitem :: "dict \<Rightarrow> string \<Rightarrow> error + json" where
  "getitem d k = (case map_of d k of None \<Rightarrow> Inl (KeyError k) | Some v \<Rightarrow> Inr v)"

definition dict_get :: "dict \<Rightarrow> string \<Rightarrow> json \<Rightarrow> json" where
  "dict_get d k dflt = (case map_of d k of None \<Rightarrow> dflt | Some v \<Rightarrow> v)"

definition setitem :: "string \<Rightarrow> json \<Rightarrow> dict \<Rightarrow> dict" where
  "setitem k v d =
     (if has_key d k then map (\<lambda>(k', v'). if k' = k then (k', v) else (k', v')) d
      else d @ [(k, v)])"

definition dict_pop :: "string \<Rightarrow> dict \<Rightarrow> dict" where
  "dict_pop k d = filter (\<lambda>(k', v'). k' \<noteq> k) d"

text \<open>Python's truth test, as \<open>if smooth\<close> and \<open>if training["profiling"]\<close> apply it.\<close>

fun truthy :: "json \<Rightarrow> bool" where
  "truthy JNull = False"
| "truthy (JBool b) = b"
| "truthy (JInt i) = (i \<noteq> 0)"
| "truthy (JFloat w) = (take_bit 63 w \<noteq> 0)"
| "truthy (JStr s) = (s \<noteq> [])"
| "truthy (JList xs) = (xs \<noteq> [])"
| "truthy (JDict d) = (d \<noteq> [])"

text \<open>
  \<open>k in v\<close> and \<open>v[k]\<close> for a string \<open>k\<close> and a value \<open>v\<close> of any type: a list is
  searched for an equal element, a string for a substring, and only a dict accepts a
  string subscript.
\<close>

fun py_contains :: "string \<Rightarrow> json \<Rightarrow> error + bool" where
  "py_contains k (JDict d) = Inr (has_key d k)"
| "py_contains k (JList xs) = Inr (JStr k \<in> set xs)"
| "py_contains k (JStr s) = Inr (sublist k s)"
| "py_contains k v = Inl TypeError"

fun py_subscript :: "json \<Rightarrow> string \<Rightarrow> error + json" where
  "py_subscript (JDict d) k = getitem d k"
| "py_subscript v k = Inl TypeError"

text \<open>A raised exception ends the computation: the rest is skipped.\<close>

definition rbind :: "error + 'a \<Rightarrow> ('a \<Rightarrow> error + 'b) \<Rightarrow> error + 'b" where
  "rbind m f = (case m of Inl e \<Rightarrow> Inl e | Inr x \<Rightarrow> f x)"

section \<open>Field copier\<close>

primrec jcopy :: "dict \<Rightarrow> dict \<Rightarrow> string list \<Rightarrow> dict" where
  "jcopy src dst [] = dst"
| "jcopy src dst (k # ks) =
     jcopy src (case map_of src k of None \<Rightarrow> dst | Some v \<Rightarrow> setitem k v dst) ks"

section \<open>Stage transformers from v0 to v1\<close>

text \<open>
  Modelled from the spec: \<open>j_deprecated\<close> is imported from \<open>deepmd.common\<close>, which is not
  among the sources. The spec describes it as the deprecated-alias lookup: read the
  current key if present, else the first deprecated name that is present, else fail
  with an error naming all candidate keys. The spec gives it no other effect.
\<close>

primrec first_present :: "dict \<Rightarrow> string list \<Rightarrow> json option" where
  "first_present jdata [] = None"
| "first_present jdata (k # ks) =
     (case map_of jdata k of None \<Rightarrow> first_present jdata ks | Some v \<Rightarrow> Some v)"

definition j_deprecated :: "dict \<Rightarrow> string \<Rightarrow> string list \<Rightarrow> error + json" where
  "j_deprecated jdata key deprecated_key =
     (case first_present jdata (key # deprecated_key) of
        None \<Rightarrow> Inl (DeprecatedKeyMissing (key # deprecated_key))
      | Some v \<Rightarrow> Inr v)"

text \<open>\<open>seed = jdata.get("seed", None); if seed is not None: out["seed"] = seed\<close>\<close>

definition copy_seed :: "dict \<Rightarrow> dict \<Rightarrow> dict" where
  "copy_seed jdata out =
     (let seed = dict_get jdata ''seed'' JNull
      in if seed \<noteq> JNull then setitem ''seed'' seed out else out)"

definition nonsmth_descriptor :: "dict \<Rightarrow> dict" where
  "nonsmth_descriptor jdata =
     jcopy jdata (setitem ''type'' (JStr ''loc_frame'') [])
       [''sel_a'', ''sel_r'', ''rcut'', ''axis_rule'']"

definition smth_descriptor :: "dict \<Rightarrow> error + dict" where
  "smth_descriptor jdata =
     (let d1 = copy_seed jdata [];
          d2 = setitem ''type'' (JStr ''se_a'') d1
      in rbind (getitem jdata ''sel_a'') (\<lambda>sel.
         let d3 = setitem ''sel'' sel d2;
             d4 = jcopy jdata d3 [''rcut'']
         in rbind (getitem d4 ''rcut'') (\<lambda>rcut.
            let d5 = setitem ''rcut_smth'' (dict_get jdata ''rcut_smth'' rcut) d4
            in rbind (getitem jdata ''filter_neuron'') (\<lambda>neuron.
               let d6 = setitem ''neuron'' neuron d5
               in rbind (j_deprecated jdata ''axis_neuron'' [''n_axis_neuron'']) (\<lambda>axis.
                  let d7 = setitem ''axis_neuron'' axis d6;
                      d8 = setitem ''resnet_dt'' (JBool False) d7
                  in if has_key jdata ''resnet_dt''
                     then rbind (getitem jdata ''filter_resnet_dt'') (\<lambda>dt.
                            Inr (setitem ''resnet_dt'' dt d8))
                     else Inr d8)))))"

definition fitting_net :: "dict \<Rightarrow> error + dict" where
  "fitting_net jdata =
     (let f1 = copy_seed jdata []
      in rbind (j_deprecated jdata ''fitting_neuron'' [''n_neuron'']) (\<lambda>neuron.
         let f2 = setitem ''neuron'' neuron f1;
             f3 = setitem ''resnet_dt'' (JBool True) f2;
             f4 = (case map_of jdata ''resnet_dt'' of
                     None \<Rightarrow> f3 | Some v \<Rightarrow> setitem ''resnet_dt'' v f3);
             f5 = (case map_of jdata ''fitting_resnet_dt'' of
                     None \<Rightarrow> f4 | Some v \<Rightarrow> setitem ''resnet_dt'' v f4)
         in Inr f5))"

definition model :: "dict \<Rightarrow> json \<Rightarrow> error + dict" where
  "model jdata smooth =
     rbind (if truthy smooth then smth_descriptor jdata else Inr (nonsmth_descriptor jdata))
       (\<lambda>descriptor.
          let m1 = setitem ''descriptor'' (JDict descriptor) []
          in rbind (fitting_net jdata) (\<lambda>fit.
               Inr (setitem ''fitting_net'' (JDict fit) m1)))"

definition learning_rate :: "dict \<Rightarrow> dict" where
  "learning_rate jdata =
     jcopy jdata (setitem ''type'' (JStr ''exp'') [])
       [''decay_steps'', ''decay_rate'', ''start_lr'']"

definition loss :: "dict \<Rightarrow> dict" where
  "loss jdata =
     (let l1 = jcopy jdata []
                 [''start_pref_e'', ''limit_pref_e'', ''start_pref_f'', ''limit_pref_f'',
                  ''start_pref_v'', ''limit_pref_v''];
          l2 = (case map_of jdata ''start_pref_ae'' of
                  None \<Rightarrow> l1 | Some v \<Rightarrow> setitem ''start_pref_ae'' v l1);
          l3 = (case map_of jdata ''limit_pref_ae'' of
                  None \<Rightarrow> l2 | Some v \<Rightarrow> setitem ''limit_pref_ae'' v l2)
      in l3)"

definition training :: "dict \<Rightarrow> error + dict" where
  "training jdata =
     (let t1 = copy_seed jdata [];
          t2 = jcopy jdata t1 [''systems'', ''set_prefix'', ''stop_batch'', ''batch_size''];
          t3 = setitem ''disp_file'' (JStr ''lcurve.out'') t2;
          t4 = (case map_of jdata ''disp_file'' of
                  None \<Rightarrow> t3 | Some v \<Rightarrow> setitem ''disp_file'' v t3)
      in rbind (getitem jdata ''disp_freq'') (\<lambda>disp_freq.
         rbind (getitem jdata ''numb_test'') (\<lambda>numb_test.
         rbind (getitem jdata ''save_freq'') (\<lambda>save_freq.
         rbind (getitem jdata ''save_ckpt'') (\<lambda>save_ckpt.
         rbind (getitem jdata ''disp_training'') (\<lambda>disp_training.
         rbind (getitem jdata ''time_training'') (\<lambda>time_training.
         let t5 = setitem ''time_training'' time_training
                   (setitem ''disp_training'' disp_training
                     (setitem ''save_ckpt'' save_ckpt
                       (setitem ''save_freq'' save_freq
                         (setitem ''numb_test'' numb_test
                           (setitem ''disp_freq'' disp_freq t4)))))
         in case map_of jdata ''profiling'' of
              None \<Rightarrow> Inr t5
            | Some p \<Rightarrow>
                let t6 = setitem ''profiling'' p t5
                in if truthy p
                   then rbind (getitem jdata ''profiling_file'') (\<lambda>pf.
                          Inr (setitem ''profiling_file'' pf t6))
                   else Inr t6)))))))"

section \<open>Warnings and the dumped file\<close>

text \<open>
  What a call leaves behind besides its result: the messages passed to \<open>warnings.warn\<close>,
  oldest first, and the files it wrote, each with its path. The text form of a dumped
  document is not modelled.

  \<open>with open(dump, "w") as fp: json.dump(jdata, fp, indent=4)\<close> can raise: \<open>open\<close>
  when the path cannot be opened for writing, which leaves no trace, and \<open>json.dump\<close>
  when the write fails or the document holds a value it does not accept, which leaves
  an opened, incomplete file. Whether the dump of a document to a path raises, where
  and with which exception, is a fact of the world the call runs in: its \<open>faults\<close>.
\<close>

datatype dump_fault = OpenFails error | WriteFails error

datatype written = Whole dict | Incomplete

record world =
  warns :: "string list"
  files :: "(string \<times> written) list"
  faults :: "string \<Rightarrow> dict \<Rightarrow> dump_fault option"

definition warn :: "string \<Rightarrow> world \<Rightarrow> world" where
  "warn msg w = w\<lparr>warns := warns w @ [msg]\<rparr>"

text \<open>
  \<open>if dump is not None: with open(dump, "w") as fp: json.dump(jdata, fp, indent=4)\<close>:
  the exception raised, if any, and the world afterwards.
\<close>

definition dump_to :: "string option \<Rightarrow> dict \<Rightarrow> world \<Rightarrow> error option \<times> world" where
  "dump_to dump jdata w =
     (case dump of
        None \<Rightarrow> (None, w)
      | Some path \<Rightarrow>
          (case faults w path jdata of
             None \<Rightarrow> (None, w\<lparr>files := files w @ [(path, Whole jdata)]\<rparr>)
           | Some (OpenFails e) \<Rightarrow> (Some e, w)
           | Some (WriteFails e) \<Rightarrow> (Some e, w\<lparr>files := files w @ [(path, Incomplete)]\<rparr>)))"

definition msg_input_v0_v1 :: "string option \<Rightarrow> string" where
  "msg_input_v0_v1 fname =
     ''It seems that you are using a deepmd-kit input of version 0.x.x, '' @
     ''which is deprecated. we have converted the input to >2.0.0 compatible'' @
     (case fname of None \<Rightarrow> [] | Some f \<Rightarrow> '', and output it to file '' @ f)"

definition warning_input_v0_v1 :: "string option \<Rightarrow> world \<Rightarrow> world" where
  "warning_input_v0_v1 fname w = warn (msg_input_v0_v1 fname) w"

definition msg_input_v1_v2 :: "string option \<Rightarrow> string" where
  "msg_input_v1_v2 fname =
     ''It seems that you are using a deepmd-kit input of version 1.x.x, '' @
     ''which is deprecated. we have converted the input to >2.0.0 compatible'' @
     (case fname of None \<Rightarrow> [] | Some f \<Rightarrow> '', and output it to file '' @ f)"

definition warning_input_v1_v2 :: "string option \<Rightarrow> world \<Rightarrow> world" where
  "warning_input_v1_v2 fname w = warn (msg_input_v1_v2 fname) w"

definition msg_numb_test :: string where
  "msg_numb_test =
     ''The argument training->numb_test has been deprecated since v2.0.0. '' @
     ''Use training->validation_data->batch_size instead.''"

section \<open>Migration from v0 to v1\<close>

text \<open>
  \<open>convert_input_v0_v1\<close> builds a new dict and never writes to \<open>jdata\<close>. Every lookup
  that can raise comes before the warning, and the warning before the dump.
\<close>

definition convert_input_v0_v1 ::
  "dict \<Rightarrow> bool \<Rightarrow> string option \<Rightarrow> world \<Rightarrow> (error + dict) \<times> world" where
  "convert_input_v0_v1 jdata warning dump w =
     (case rbind (getitem jdata ''use_smooth'') (\<lambda>smooth.
           rbind (model jdata smooth) (\<lambda>m.
           let o1 = setitem ''model'' (JDict m) [];
               o2 = setitem ''learning_rate'' (JDict (learning_rate jdata)) o1;
               o3 = setitem ''loss'' (JDict (loss jdata)) o2
           in rbind (training jdata) (\<lambda>t.
                Inr (setitem ''training'' (JDict t) o3)))) of
        Inl e \<Rightarrow> (Inl e, w)
      | Inr output \<Rightarrow>
          let w1 = (if warning then warning_input_v0_v1 dump w else w)
          in (case dump_to dump output w1 of
                (Some e, w2) \<Rightarrow> (Inl e, w2)
              | (None, w2) \<Rightarrow> (Inr output, w2)))"

section \<open>Migration from v1 to v2\<close>

text \<open>
  The value of \<open>np.exp(np.log(decay_rate) * (stop_step / decay_steps)) * start_lr\<close>, or
  the exception the expression raises, is computed by \<open>numpy\<close> and Python's float
  division on values of any type. It is a parameter of the model, taking
  \<open>decay_rate\<close>, \<open>stop_step\<close>, \<open>decay_steps\<close> and \<open>start_lr\<close> in the order the
  expression reads them.
\<close>

type_synonym stop_lr_fn = "json \<Rightarrow> json \<Rightarrow> json \<Rightarrow> json \<Rightarrow> error + json"

text \<open>
  \<open>remove_decay_rate\<close> changes \<open>jdata["learning_rate"]\<close> in place. Every statement that
  can raise comes before the two that write (\<open>lr["stop_lr"] = stop_lr\<close> and
  \<open>lr.pop("decay_rate")\<close>, which cannot raise, the key being there), so a call that raises
  leaves \<open>jdata\<close> as it was: \<open>Inl\<close> is the exception, \<open>Inr\<close> the content of \<open>jdata\<close>
  after the call.
\<close>

definition remove_decay_rate :: "stop_lr_fn \<Rightarrow> dict \<Rightarrow> error + dict" where
  "remove_decay_rate np jdata =
     rbind (getitem jdata ''learning_rate'') (\<lambda>lr.
     rbind (py_contains ''decay_rate'' lr) (\<lambda>present.
       if present then
         rbind (py_subscript lr ''decay_rate'') (\<lambda>decay_rate.
         rbind (py_subscript lr ''start_lr'') (\<lambda>start_lr.
         rbind (getitem jdata ''training'') (\<lambda>tr.
         rbind (py_subscript tr ''stop_batch'') (\<lambda>stop_step.
         rbind (py_subscript lr ''decay_steps'') (\<lambda>decay_steps.
         rbind (np decay_rate stop_step decay_steps start_lr) (\<lambda>stop_lr.
           case lr of
             JDict l \<Rightarrow>
               Inr (setitem ''learning_rate''
                      (JDict (dict_pop ''decay_rate'' (setitem ''stop_lr'' stop_lr l))) jdata)
           | _ \<Rightarrow> Inl TypeError))))))
       else Inr jdata))"

definition tr_data_keys :: "string list" where
  "tr_data_keys =
     [''systems'', ''set_prefix'', ''batch_size'', ''sys_prob'', ''auto_prob'',
      ''sys_weights'', ''auto_prob_style'']"

definition tr_data_cfg :: "dict \<Rightarrow> dict" where
  "tr_data_cfg tr_cfg = filter (\<lambda>(k, v). k \<in> set tr_data_keys) tr_cfg"

definition new_tr_cfg :: "dict \<Rightarrow> dict" where
  "new_tr_cfg tr_cfg =
     setitem ''training_data'' (JDict (tr_data_cfg tr_cfg))
       (filter (\<lambda>(k, v). k \<notin> set tr_data_keys) tr_cfg)"

definition msg_v1_v2_conflict :: string where
  "msg_v1_v2_conflict =
     ''Both v1 (training/systems) and v2 (training/training_data) parameters are given.''"

text \<open>
  The functions that write to the dict they are given return it, so their outcome has
  three parts: what the call returned or raised, the content of the argument \<open>jdata\<close>
  when the call ended (which is what the caller holds, returned or not), and the world.
  Documents come from a decoder, so no dict is reachable along two paths.
\<close>

record outcome =
  returned :: "error + dict"
  arg_after :: dict
  world_after :: world

definition convert_input_v1_v2 ::
  "stop_lr_fn \<Rightarrow> dict \<Rightarrow> bool \<Rightarrow> string option \<Rightarrow> world \<Rightarrow> outcome" where
  "convert_input_v1_v2 np jdata warning dump w =
     (case getitem jdata ''training'' of
        Inl e \<Rightarrow> \<lparr>returned = Inl e, arg_after = jdata, world_after = w\<rparr>
      | Inr (JDict tr_cfg) \<Rightarrow>
          if has_key tr_cfg ''training_data''
          then \<lparr>returned = Inl (RuntimeError msg_v1_v2_conflict),
                arg_after = jdata, world_after = w\<rparr>
          else
            let jdata1 = setitem ''training'' (JDict (new_tr_cfg tr_cfg)) jdata
            in (case remove_decay_rate np jdata1 of
                  Inl e \<Rightarrow> \<lparr>returned = Inl e, arg_after = jdata1, world_after = w\<rparr>
                | Inr jdata2 \<Rightarrow>
                    let w1 = (if warning then warning_input_v1_v2 dump w else w)
                    in (case dump_to dump jdata2 w1 of
                          (Some e, w2) \<Rightarrow>
                            \<lparr>returned = Inl e, arg_after = jdata2, world_after = w2\<rparr>
                        | (None, w2) \<Rightarrow>
                            \<lparr>returned = Inr jdata2, arg_after = jdata2, world_after = w2\<rparr>))
      | Inr _ \<Rightarrow>
          \<lparr>returned = Inl (AttributeError ''items''), arg_after = jdata, world_after = w\<rparr>)"

section \<open>Deprecation pruner\<close>

text \<open>
  \<open>jdata.get("training", {}).pop("numb_test")\<close>: a dict without the key raises the
  \<open>KeyError\<close> that is caught; a list rejects the string argument of \<open>pop\<close> with a
  \<open>TypeError\<close>, and no other value has a \<open>pop\<close>; neither is caught.
\<close>

definition deprecate_numb_test ::
  "dict \<Rightarrow> bool \<Rightarrow> string option \<Rightarrow> world \<Rightarrow> outcome" where
  "deprecate_numb_test jdata warning dump w =
     (case dict_get jdata ''training'' (JDict []) of
        JDict tr \<Rightarrow>
          if has_key tr ''numb_test''
          then
            let jdata1 = setitem ''training'' (JDict (dict_pop ''numb_test'' tr)) jdata;
                w1 = (if warning then warn msg_numb_test w else w)
            in (case dump_to dump jdata1 w1 of
                  (Some e, w2) \<Rightarrow>
                    \<lparr>returned = Inl e, arg_after = jdata1, world_after = w2\<rparr>
                | (None, w2) \<Rightarrow>
                    \<lparr>returned = Inr jdata1, arg_after = jdata1, world_after = w2\<rparr>)
          else
            (case dump_to dump jdata w of
               (Some e, w2) \<Rightarrow> \<lparr>returned = Inl e, arg_after = jdata, world_after = w2\<rparr>
             | (None, w2) \<Rightarrow> \<lparr>returned = Inr jdata, arg_after = jdata, world_after = w2\<rparr>)
      | JList xs \<Rightarrow> \<lparr>returned = Inl TypeError, arg_after = jdata, world_after = w\<rparr>
      | _ \<Rightarrow> \<lparr>returned = Inl (AttributeError ''pop''), arg_after = jdata, world_after = w\<rparr>)"

section \<open>Dispatcher\<close>

definition is_deepmd_v0_input :: "dict \<Rightarrow> bool" where
  "is_deepmd_v0_input jdata = (\<not> has_key jdata ''model'')"

definition is_deepmd_v1_input :: "dict \<Rightarrow> error + bool" where
  "is_deepmd_v1_input jdata =
     rbind (getitem jdata ''training'') (\<lambda>tr.
       case tr of
         JDict d \<Rightarrow> Inr (has_key d ''systems'')
       | _ \<Rightarrow> Inl (AttributeError ''keys''))"

text \<open>
  On the v0 route the name \<open>jdata\<close> is rebound to the dict that \<open>convert_input_v0_v1\<close>
  built, and the later stages write to that dict and to the dicts built for its
  \<open>training\<close> and \<open>learning_rate\<close> entries only: the caller's dict keeps its content.
  On the other routes the stages write to the caller's own dict.
\<close>

definition update_deepmd_input ::
  "stop_lr_fn \<Rightarrow> dict \<Rightarrow> bool \<Rightarrow> string option \<Rightarrow> world \<Rightarrow> outcome" where
  "update_deepmd_input np jdata warning dump w =
     (if is_deepmd_v0_input jdata then
        (case convert_input_v0_v1 jdata warning None w of
           (Inl e, w1) \<Rightarrow> \<lparr>returned = Inl e, arg_after = jdata, world_after = w1\<rparr>
         | (Inr jdata1, w1) \<Rightarrow>
             let r2 = convert_input_v1_v2 np jdata1 False None w1
             in (case returned r2 of
                   Inl e \<Rightarrow> r2\<lparr>arg_after := jdata\<rparr>
                 | Inr jdata2 \<Rightarrow>
                     (deprecate_numb_test jdata2 False dump (world_after r2))
                       \<lparr>arg_after := jdata\<rparr>))
      else
        (case is_deepmd_v1_input jdata of
           Inl e \<Rightarrow> \<lparr>returned = Inl e, arg_after = jdata, world_after = w\<rparr>
         | Inr True \<Rightarrow>
             let r2 = convert_input_v1_v2 np jdata warning None w
             in (case returned r2 of
                   Inl e \<Rightarrow> r2
                 | Inr jdata2 \<Rightarrow> deprecate_numb_test jdata2 False dump (world_after r2))
         | Inr False \<Rightarrow> deprecate_numb_test jdata warning dump w))"

section \<open>Example documents\<close>

text \<open>
  The documents and worlds the theorems below are run on. None of the documents reaches
  the float arithmetic of the learning-rate cleanup (\<open>v1_example\<close> has a \<open>decay_rate\<close>
  but no \<open>start_lr\<close>, so the lookup raises first); \<open>no_numpy\<close> stands for it there and
  rejects every argument. In \<open>world0\<close> every dump succeeds; in \<open>world_no_dir\<close> the
  path \<open>/no/such/dir/out.json\<close> cannot be opened.
\<close>

definition world0 :: world where
  "world0 = \<lparr>warns = [], files = [], faults = (\<lambda>path jdata. None)\<rparr>"


definition v0_example :: dict where
  "v0_example =
     [(''use_smooth'', JBool True), (''sel_a'', JList [JInt 16]), (''rcut'', JInt 6),
      (''filter_neuron'', JList [JInt 10]), (''n_axis_neuron'', JInt 4),
      (''n_neuron'', JList [JInt 20]), (''systems'', JList [JStr ''data'']),
      (''stop_batch'', JInt 100), (''batch_size'', JInt 1), (''disp_freq'', JInt 10),
      (''numb_test'', JInt 5), (''save_freq'', JInt 10), (''save_ckpt'', JStr ''model.ckpt''),
      (''disp_training'', JBool True), (''time_training'', JBool True)]"

definition v0_seeded_example :: dict where
  "v0_seeded_example = (''seed'', JInt 7) # (''profiling'', JBool False) # v0_example"

definition smth_example :: dict where
  "smth_example =
     [(''sel_a'', JList [JInt 16]), (''rcut'', JInt 6), (''filter_neuron'', JList [JInt 10]),
      (''axis_neuron'', JInt 4), (''resnet_dt'', JBool False),
      (''filter_resnet_dt'', JBool True)]"

definition smth_default_example :: dict where
  "smth_default_example =
     [(''sel_a'', JList [JInt 16]), (''rcut'', JInt 6), (''filter_neuron'', JList [JInt 10]),
      (''n_axis_neuron'', JInt 4), (''filter_resnet_dt'', JBool True)]"

definition fit_example :: dict where
  "fit_example =
     [(''fitting_neuron'', JList [JInt 20]), (''fitting_resnet_dt'', JBool True),
      (''resnet_dt'', JBool False)]"

definition fit_resnet_only_example :: dict where
  "fit_resnet_only_example = [(''n_neuron'', JList [JInt 20]), (''resnet_dt'', JBool False)]"

definition fit_default_example :: dict where
  "fit_default_example = [(''fitting_neuron'', JList [JInt 20])]"

definition null_seed_example :: dict where
  "null_seed_example = [(''seed'', JNull), (''fitting_neuron'', JList [JInt 20])]"


definition conflict_example :: dict where
  "conflict_example =
     [(''model'', JDict []),
      (''training'',
         JDict [(''systems'', JList [JStr ''data'']),
                (''training_data'', JDict [(''systems'', JList [JStr ''data''])])])]"


definition no_numpy :: stop_lr_fn where
  "no_numpy decay_rate stop_step decay_steps start_lr = Inl TypeError"

section \<open>Dict lemmas\<close>

lemma has_key_map_of: "has_key d k \<longleftrightarrow> map_of d k \<noteq> None"
  by (simp add: has_key_def map_of_eq_None_iff)

lemma map_of_setitem: "map_of (setitem k v d) = (map_of d)(k \<mapsto> v)"
proof (cases "has_key d k")
  case False
  then show ?thesis
    by (auto simp: setitem_def has_key_map_of map_add_def fun_eq_iff split: option.splits)
next
  case True
  have "map_of (map (\<lambda>(k', v'). if k' = k then (k', v) else (k', v')) d) k'
          = (if k' = k \<and> map_of d k \<noteq> None then Some v else map_of d k')" for k'
    by (induction d) auto
  with True show ?thesis
    by (auto simp: setitem_def has_key_map_of fun_eq_iff)
qed


lemma map_of_jcopy:
  "map_of (jcopy src dst ks) k =
     (if k \<in> set ks \<and> map_of src k \<noteq> None then map_of src k else map_of dst k)"
  by (induction ks arbitrary: dst) (auto simp: map_of_setitem split: option.splits)

lemma rbind_simps [simp]: "rbind (Inl e) f = Inl e" "rbind (Inr x) f = f x"
  by (simp_all add: rbind_def)

lemma rbind_Inr_iff: "rbind m f = Inr y \<longleftrightarrow> (\<exists>x. m = Inr x \<and> f x = Inr y)"
  by (cases m) simp_all

lemma getitem_Inr_iff: "getitem d k = Inr v \<longleftrightarrow> map_of d k = Some v"
  by (simp add: getitem_def split: option.splits)

lemma getitem_Inl_iff: "getitem d k = Inl e \<longleftrightarrow> map_of d k = None \<and> e = KeyError k"
  by (auto simp: getitem_def split: option.splits)

lemma has_key_setitem: "has_key (setitem k v d) k' \<longleftrightarrow> k' = k \<or> has_key d k'"
  by (simp add: has_key_map_of map_of_setitem)



lemma warns_warn [simp]: "warns (warn msg w) = warns w @ [msg]"
  by (simp add: warn_def)

lemma files_warn [simp]: "files (warn msg w) = files w"
  by (simp add: warn_def)

lemma faults_warn [simp]: "faults (warn msg w) = faults w"
  by (simp add: warn_def)

lemma dump_to_None [simp]: "dump_to None jdata w = (None, w)"
  by (simp add: dump_to_def)

lemma warns_dump_to [simp]: "warns (snd (dump_to dump jdata w)) = warns w"
  by (simp add: dump_to_def split: option.splits dump_fault.splits)

lemma faults_dump_to [simp]: "faults (snd (dump_to dump jdata w)) = faults w"
  by (simp add: dump_to_def split: option.splits dump_fault.splits)

lemma fst_dump_to_warn [simp]: "fst (dump_to dump jdata (warn msg w)) = fst (dump_to dump jdata w)"
  by (simp add: dump_to_def split: option.splits dump_fault.splits)

lemma dump_to_raised:
  "fst (dump_to dump jdata w) = Some e \<longleftrightarrow>
     (\<exists>path. dump = Some path \<and>
        (faults w path jdata = Some (OpenFails e) \<or> faults w path jdata = Some (WriteFails e)))"
  by (auto simp: dump_to_def split: option.splits dump_fault.splits)

lemma dump_to_returned:
  "fst (dump_to dump jdata w) = None \<longleftrightarrow>
     (\<forall>path. dump = Some path \<longrightarrow> faults w path jdata = None)"
  by (auto simp: dump_to_def split: option.splits dump_fault.splits)

subsection \<open>The stages, case by case\<close>

lemma convert_input_v0_v1_world:
  "snd (convert_input_v0_v1 jdata warning None w) =
     (case fst (convert_input_v0_v1 jdata warning None w) of
        Inl e \<Rightarrow> w
      | Inr output \<Rightarrow> if warning then warn (msg_input_v0_v1 None) w else w)"
  by (simp add: convert_input_v0_v1_def warning_input_v0_v1_def Let_def split: sum.splits)

lemma remove_decay_rate_training:
  assumes "remove_decay_rate np jdata = Inr jdata'"
  shows "map_of jdata' ''training'' = map_of jdata ''training''"
proof -
  from assms obtain lr present where
    body: "(if present then
         rbind (py_subscript lr ''decay_rate'') (\<lambda>decay_rate.
         rbind (py_subscript lr ''start_lr'') (\<lambda>start_lr.
         rbind (getitem jdata ''training'') (\<lambda>tr.
         rbind (py_subscript tr ''stop_batch'') (\<lambda>stop_step.
         rbind (py_subscript lr ''decay_steps'') (\<lambda>decay_steps.
         rbind (np decay_rate stop_step decay_steps start_lr) (\<lambda>stop_lr.
           case lr of
             JDict l \<Rightarrow>
               Inr (setitem ''learning_rate''
                      (JDict (dict_pop ''decay_rate'' (setitem ''stop_lr'' stop_lr l))) jdata)
           | _ \<Rightarrow> Inl TypeError))))))
       else Inr jdata) = Inr jdata'"
    unfolding remove_decay_rate_def rbind_Inr_iff by blast
  show ?thesis
  proof (cases present)
    case False
    with body show ?thesis by simp
  next
    case True
    with body show ?thesis
      by (cases lr) (auto simp: rbind_Inr_iff map_of_setitem)
  qed
qed

lemma v1_v2_no_training:
  "map_of jdata ''training'' = None \<Longrightarrow>
   convert_input_v1_v2 np jdata warning dump w =
     \<lparr>returned = Inl (KeyError ''training''), arg_after = jdata, world_after = w\<rparr>"
  by (simp add: convert_input_v1_v2_def getitem_def)

lemma v1_v2_not_dict:
  "map_of jdata ''training'' = Some v \<Longrightarrow> \<forall>tr. v \<noteq> JDict tr \<Longrightarrow>
   convert_input_v1_v2 np jdata warning dump w =
     \<lparr>returned = Inl (AttributeError ''items''), arg_after = jdata, world_after = w\<rparr>"
  by (cases v) (simp_all add: convert_input_v1_v2_def getitem_def)

lemma v1_v2_conflict:
  "map_of jdata ''training'' = Some (JDict tr) \<Longrightarrow> has_key tr ''training_data'' \<Longrightarrow>
   convert_input_v1_v2 np jdata warning dump w =
     \<lparr>returned = Inl (RuntimeError msg_v1_v2_conflict), arg_after = jdata,
      world_after = w\<rparr>"
  by (simp add: convert_input_v1_v2_def getitem_def)

lemma v1_v2_cleanup_raised:
  "map_of jdata ''training'' = Some (JDict tr) \<Longrightarrow> \<not> has_key tr ''training_data'' \<Longrightarrow>
   remove_decay_rate np (setitem ''training'' (JDict (new_tr_cfg tr)) jdata) = Inl e \<Longrightarrow>
   convert_input_v1_v2 np jdata warning dump w =
     \<lparr>returned = Inl e,
      arg_after = setitem ''training'' (JDict (new_tr_cfg tr)) jdata, world_after = w\<rparr>"
  by (simp add: convert_input_v1_v2_def getitem_def)

lemma v1_v2_migrated:
  "map_of jdata ''training'' = Some (JDict tr) \<Longrightarrow> \<not> has_key tr ''training_data'' \<Longrightarrow>
   remove_decay_rate np (setitem ''training'' (JDict (new_tr_cfg tr)) jdata) = Inr jdata2 \<Longrightarrow>
   convert_input_v1_v2 np jdata warning None w =
     \<lparr>returned = Inr jdata2, arg_after = jdata2,
      world_after = (if warning then warn (msg_input_v1_v2 None) w else w)\<rparr>"
  by (simp add: convert_input_v1_v2_def getitem_def warning_input_v1_v2_def)

lemma convert_input_v1_v2_cases:
  obtains
    (no_training) "map_of jdata ''training'' = None"
  | (not_dict) v where "map_of jdata ''training'' = Some v" "\<forall>tr. v \<noteq> JDict tr"
  | (conflict) tr where "map_of jdata ''training'' = Some (JDict tr)"
      "has_key tr ''training_data''"
  | (cleanup_raised) tr e where "map_of jdata ''training'' = Some (JDict tr)"
      "\<not> has_key tr ''training_data''"
      "remove_decay_rate np (setitem ''training'' (JDict (new_tr_cfg tr)) jdata) = Inl e"
  | (migrated) tr jdata2 where "map_of jdata ''training'' = Some (JDict tr)"
      "\<not> has_key tr ''training_data''"
      "remove_decay_rate np (setitem ''training'' (JDict (new_tr_cfg tr)) jdata) = Inr jdata2"
proof (cases "map_of jdata ''training''")
  case None
  then show ?thesis by (rule no_training)
next
  case (Some v)
  show ?thesis
  proof (cases "\<exists>tr. v = JDict tr")
    case False
    with Some show ?thesis by (intro not_dict) auto
  next
    case True
    then obtain tr where v: "v = JDict tr" by blast
    show ?thesis
    proof (cases "has_key tr ''training_data''")
      case True
      with Some v show ?thesis by (intro conflict) auto
    next
      case False
      show ?thesis
      proof (cases "remove_decay_rate np (setitem ''training'' (JDict (new_tr_cfg tr)) jdata)")
        case (Inl e)
        with Some v False show ?thesis by (intro cleanup_raised) auto
      next
        case (Inr j)
        with Some v False show ?thesis by (intro migrated) auto
      qed
    qed
  qed
qed

lemma convert_input_v1_v2_raised:
  assumes "returned (convert_input_v1_v2 np jdata warning None w) = Inl e"
  shows "world_after (convert_input_v1_v2 np jdata warning None w) = w \<and>
         (arg_after (convert_input_v1_v2 np jdata warning None w) = jdata \<or>
          (\<exists>tr. map_of jdata ''training'' = Some (JDict tr) \<and>
                \<not> has_key tr ''training_data'' \<and>
                arg_after (convert_input_v1_v2 np jdata warning None w) =
                  setitem ''training'' (JDict (new_tr_cfg tr)) jdata \<and>
                remove_decay_rate np (setitem ''training'' (JDict (new_tr_cfg tr)) jdata)
                  = Inl e))"
proof (cases rule: convert_input_v1_v2_cases [where jdata = jdata and np = np])
  case no_training
  then show ?thesis by (simp add: v1_v2_no_training)
next
  case (not_dict v)
  then show ?thesis by (simp add: v1_v2_not_dict)
next
  case (conflict tr)
  then show ?thesis by (simp add: v1_v2_conflict)
next
  case (cleanup_raised tr e')
  with assms show ?thesis by (simp add: v1_v2_cleanup_raised)
next
  case (migrated tr jdata2)
  with assms show ?thesis by (simp add: v1_v2_migrated)
qed

lemma convert_input_v1_v2_returned:
  assumes "returned (convert_input_v1_v2 np jdata warning None w) = Inr jdata2"
  shows "arg_after (convert_input_v1_v2 np jdata warning None w) = jdata2 \<and>
         world_after (convert_input_v1_v2 np jdata warning None w) =
           (if warning then warn (msg_input_v1_v2 None) w else w) \<and>
         (\<exists>tr. map_of jdata2 ''training'' = Some (JDict tr))"
proof (cases rule: convert_input_v1_v2_cases [where jdata = jdata and np = np])
  case no_training
  with assms show ?thesis by (simp add: v1_v2_no_training)
next
  case (not_dict v)
  with assms show ?thesis by (simp add: v1_v2_not_dict)
next
  case (conflict tr)
  with assms show ?thesis by (simp add: v1_v2_conflict)
next
  case (cleanup_raised tr e')
  with assms show ?thesis by (simp add: v1_v2_cleanup_raised)
next
  case (migrated tr j)
  from migrated(3) have "map_of j ''training'' = Some (JDict (new_tr_cfg tr))"
    by (auto dest!: remove_decay_rate_training simp: map_of_setitem)
  with migrated assms show ?thesis by (simp add: v1_v2_migrated)
qed

subsection \<open>The pruner, case by case\<close>

lemma numb_test_not_dict:
  assumes "map_of jdata ''training'' = Some v" and "\<forall>tr. v \<noteq> JDict tr"
  shows "deprecate_numb_test jdata warning dump w =
           \<lparr>returned = Inl (case v of JList xs \<Rightarrow> TypeError | _ \<Rightarrow> AttributeError ''pop''),
            arg_after = jdata, world_after = w\<rparr>"
  using assms by (cases v) (simp_all add: deprecate_numb_test_def dict_get_def)

lemma numb_test_absent:
  assumes "map_of jdata ''training'' = None \<or>
           (\<exists>tr. map_of jdata ''training'' = Some (JDict tr) \<and> \<not> has_key tr ''numb_test'')"
  shows "deprecate_numb_test jdata warning dump w =
           (case dump_to dump jdata w of
              (Some e, w2) \<Rightarrow> \<lparr>returned = Inl e, arg_after = jdata, world_after = w2\<rparr>
            | (None, w2) \<Rightarrow> \<lparr>returned = Inr jdata, arg_after = jdata, world_after = w2\<rparr>)"
  using assms by (auto simp: deprecate_numb_test_def dict_get_def has_key_def)

lemma numb_test_present:
  assumes "map_of jdata ''training'' = Some (JDict tr)" and "has_key tr ''numb_test''"
  shows "deprecate_numb_test jdata warning dump w =
           (case dump_to dump (setitem ''training'' (JDict (dict_pop ''numb_test'' tr)) jdata)
                   (if warning then warn msg_numb_test w else w) of
              (Some e, w2) \<Rightarrow>
                \<lparr>returned = Inl e,
                 arg_after = setitem ''training'' (JDict (dict_pop ''numb_test'' tr)) jdata,
                 world_after = w2\<rparr>
            | (None, w2) \<Rightarrow>
                \<lparr>returned = Inr (setitem ''training'' (JDict (dict_pop ''numb_test'' tr)) jdata),
                 arg_after = setitem ''training'' (JDict (dict_pop ''numb_test'' tr)) jdata,
                 world_after = w2\<rparr>)"
  using assms by (simp add: deprecate_numb_test_def dict_get_def Let_def)

lemma deprecate_numb_test_cases:
  obtains
    (not_dict) v where "map_of jdata ''training'' = Some v" "\<forall>tr. v \<noteq> JDict tr"
  | (absent) "map_of jdata ''training'' = None \<or>
       (\<exists>tr. map_of jdata ''training'' = Some (JDict tr) \<and> \<not> has_key tr ''numb_test'')"
  | (present) tr where "map_of jdata ''training'' = Some (JDict tr)" "has_key tr ''numb_test''"
proof (cases "map_of jdata ''training''")
  case None
  then show ?thesis by (intro absent) simp
next
  case (Some v)
  show ?thesis
  proof (cases "\<exists>tr. v = JDict tr")
    case False
    with Some show ?thesis by (intro not_dict) auto
  next
    case True
    then obtain tr where v: "v = JDict tr" by blast
    show ?thesis
    proof (cases "has_key tr ''numb_test''")
      case True
      with Some v show ?thesis by (intro present) auto
    next
      case False
      with Some v show ?thesis by (intro absent) auto
    qed
  qed
qed


lemma numb_test_warns:
  "warns (world_after (deprecate_numb_test jdata warning dump w)) = warns w \<or>
   warning \<and> warns (world_after (deprecate_numb_test jdata warning dump w))
     = warns w @ [msg_numb_test]"
proof (cases rule: deprecate_numb_test_cases [where jdata = jdata])
  case (not_dict v)
  then show ?thesis by (simp add: numb_test_not_dict)
next
  case absent
  with warns_dump_to [of dump jdata w] show ?thesis
    by (cases "dump_to dump jdata w") (auto simp: numb_test_absent split: option.splits)
next
  case (present tr)
  with warns_dump_to [of dump "setitem ''training'' (JDict (dict_pop ''numb_test'' tr)) jdata"
                        "if warning then warn msg_numb_test w else w"]
  show ?thesis
    by (cases "dump_to dump (setitem ''training'' (JDict (dict_pop ''numb_test'' tr)) jdata)
                 (if warning then warn msg_numb_test w else w)")
       (auto simp: numb_test_present split: option.splits if_splits)
qed

lemma numb_test_faults:
  "faults (world_after (deprecate_numb_test jdata warning dump w)) = faults w"
proof (cases rule: deprecate_numb_test_cases [where jdata = jdata])
  case (not_dict v)
  then show ?thesis by (simp add: numb_test_not_dict)
next
  case absent
  with faults_dump_to [of dump jdata w] show ?thesis
    by (cases "dump_to dump jdata w") (auto simp: numb_test_absent split: option.splits)
next
  case (present tr)
  with faults_dump_to [of dump "setitem ''training'' (JDict (dict_pop ''numb_test'' tr)) jdata"
                        "if warning then warn msg_numb_test w else w"]
  show ?thesis
    by (cases "dump_to dump (setitem ''training'' (JDict (dict_pop ''numb_test'' tr)) jdata)
                 (if warning then warn msg_numb_test w else w)")
       (auto simp: numb_test_present split: option.splits if_splits)
qed





section \<open>The stage transformers, key by key\<close>

lemma map_of_case_setitem:
  "map_of (case map_of src k' of None \<Rightarrow> dst | Some v \<Rightarrow> setitem k' v dst) k =
     (if k = k' \<and> map_of src k' \<noteq> None then map_of src k' else map_of dst k)"
  by (auto simp: map_of_setitem split: option.splits)

lemma map_of_copy_seed:
  "map_of (copy_seed jdata out) k =
     (if k = ''seed'' \<and> map_of jdata ''seed'' \<noteq> None \<and> map_of jdata ''seed'' \<noteq> Some JNull
      then map_of jdata ''seed'' else map_of out k)"
  by (auto simp: copy_seed_def dict_get_def Let_def map_of_setitem split: option.splits)

lemma j_deprecated_Inr_iff:
  "j_deprecated jdata key [alias] = Inr v \<longleftrightarrow>
     map_of jdata key = Some v \<or> map_of jdata key = None \<and> map_of jdata alias = Some v"
  by (auto simp: j_deprecated_def split: option.splits)

lemma smth_descriptor_tail:
  assumes "(if has_key jdata ''resnet_dt''
            then rbind (getitem jdata ''filter_resnet_dt'') (\<lambda>dt.
                   Inr (setitem ''resnet_dt'' dt (setitem ''resnet_dt'' (JBool False) d7)))
            else Inr (setitem ''resnet_dt'' (JBool False) d7)) = Inr d"
  shows "map_of d ''resnet_dt'' =
           (if has_key jdata ''resnet_dt'' then map_of jdata ''filter_resnet_dt''
            else Some (JBool False)) \<and>
         (has_key jdata ''resnet_dt'' \<longrightarrow> has_key jdata ''filter_resnet_dt'')"
  using assms
  by (auto simp: rbind_Inr_iff getitem_Inr_iff map_of_setitem has_key_map_of split: if_splits)

lemma smth_descriptor_tail_other:
  assumes "(if has_key jdata ''resnet_dt''
            then rbind (getitem jdata ''filter_resnet_dt'') (\<lambda>dt.
                   Inr (setitem ''resnet_dt'' dt (setitem ''resnet_dt'' (JBool False) d7)))
            else Inr (setitem ''resnet_dt'' (JBool False) d7)) = Inr d"
    and "k \<noteq> ''resnet_dt''"
  shows "map_of d k = map_of d7 k"
  using assms
  by (auto simp: rbind_Inr_iff map_of_setitem split: if_splits)

lemma smth_descriptor_other_keys:
  assumes "smth_descriptor jdata = Inr d"
    and k: "k \<notin> set [''type'', ''sel'', ''rcut'', ''rcut_smth'', ''neuron'', ''axis_neuron'',
                     ''resnet_dt'']"
  shows "map_of d k = map_of (copy_seed jdata []) k"
proof -
  from assms(1) obtain d7 where
    tail: "(if has_key jdata ''resnet_dt''
            then rbind (getitem jdata ''filter_resnet_dt'') (\<lambda>dt.
                   Inr (setitem ''resnet_dt'' dt (setitem ''resnet_dt'' (JBool False) d7)))
            else Inr (setitem ''resnet_dt'' (JBool False) d7)) = Inr d"
    and d7: "\<exists>sel rcut neuron axis. d7 =
               setitem ''axis_neuron'' axis (setitem ''neuron'' neuron
                 (setitem ''rcut_smth'' rcut
                   (jcopy jdata (setitem ''sel'' sel
                      (setitem ''type'' (JStr ''se_a'') (copy_seed jdata []))) [''rcut''])))"
    unfolding smth_descriptor_def Let_def rbind_Inr_iff by blast
  from d7 k have "map_of d7 k = map_of (copy_seed jdata []) k"
    by (auto simp: map_of_setitem map_of_jcopy simp del: jcopy.simps)
  with smth_descriptor_tail_other [OF tail, of k] k show ?thesis by simp
qed

lemma fitting_net_other_keys:
  assumes "fitting_net jdata = Inr f" and "k \<noteq> ''neuron''" and "k \<noteq> ''resnet_dt''"
  shows "map_of f k = map_of (copy_seed jdata []) k"
proof -
  from assms(1) obtain neuron where
    "f = (case map_of jdata ''fitting_resnet_dt'' of
            None \<Rightarrow> (case map_of jdata ''resnet_dt'' of
                       None \<Rightarrow> setitem ''resnet_dt'' (JBool True)
                                 (setitem ''neuron'' neuron (copy_seed jdata []))
                     | Some v \<Rightarrow> setitem ''resnet_dt'' v
                                 (setitem ''resnet_dt'' (JBool True)
                                   (setitem ''neuron'' neuron (copy_seed jdata []))))
          | Some v \<Rightarrow> setitem ''resnet_dt'' v
              (case map_of jdata ''resnet_dt'' of
                 None \<Rightarrow> setitem ''resnet_dt'' (JBool True)
                           (setitem ''neuron'' neuron (copy_seed jdata []))
               | Some v \<Rightarrow> setitem ''resnet_dt'' v
                           (setitem ''resnet_dt'' (JBool True)
                             (setitem ''neuron'' neuron (copy_seed jdata [])))))"
    unfolding fitting_net_def Let_def rbind_Inr_iff by blast
  with assms(2,3) show ?thesis
    by (simp add: map_of_setitem split: option.splits)
qed

lemma map_of_loss:
  "map_of (loss jdata) k =
     (if k \<in> set [''start_pref_e'', ''limit_pref_e'', ''start_pref_f'', ''limit_pref_f'',
                  ''start_pref_v'', ''limit_pref_v'', ''start_pref_ae'', ''limit_pref_ae'']
      then map_of jdata k else None)"
  unfolding loss_def Let_def map_of_case_setitem map_of_jcopy
  by auto

lemma map_of_smth_descriptor_resnet_dt:
  assumes "smth_descriptor jdata = Inr d"
  shows "map_of d ''resnet_dt'' =
           (if has_key jdata ''resnet_dt'' then map_of jdata ''filter_resnet_dt''
            else Some (JBool False)) \<and>
         (has_key jdata ''resnet_dt'' \<longrightarrow> has_key jdata ''filter_resnet_dt'')"
  using assms unfolding smth_descriptor_def Let_def rbind_Inr_iff
  by (elim exE conjE) (erule smth_descriptor_tail)

lemma map_of_fitting_net_resnet_dt:
  assumes "fitting_net jdata = Inr f"
  shows "map_of f ''resnet_dt'' =
           (case map_of jdata ''fitting_resnet_dt'' of
              Some v \<Rightarrow> Some v
            | None \<Rightarrow> (case map_of jdata ''resnet_dt'' of
                         Some v \<Rightarrow> Some v
                       | None \<Rightarrow> Some (JBool True)))"
proof -
  from assms obtain neuron where
    "f = (case map_of jdata ''fitting_resnet_dt'' of
            None \<Rightarrow> (case map_of jdata ''resnet_dt'' of
                       None \<Rightarrow> setitem ''resnet_dt'' (JBool True)
                                 (setitem ''neuron'' neuron (copy_seed jdata []))
                     | Some v \<Rightarrow> setitem ''resnet_dt'' v
                                 (setitem ''resnet_dt'' (JBool True)
                                   (setitem ''neuron'' neuron (copy_seed jdata []))))
          | Some v \<Rightarrow> setitem ''resnet_dt'' v
              (case map_of jdata ''resnet_dt'' of
                 None \<Rightarrow> setitem ''resnet_dt'' (JBool True)
                           (setitem ''neuron'' neuron (copy_seed jdata []))
               | Some v \<Rightarrow> setitem ''resnet_dt'' v
                           (setitem ''resnet_dt'' (JBool True)
                             (setitem ''neuron'' neuron (copy_seed jdata [])))))"
    unfolding fitting_net_def Let_def rbind_Inr_iff by blast
  then show ?thesis
    by (simp add: map_of_setitem split: option.splits)
qed

lemma training_tail:
  assumes "(case map_of jdata ''profiling'' of
              None \<Rightarrow> Inr t5
            | Some p \<Rightarrow>
                if truthy p
                then rbind (getitem jdata ''profiling_file'') (\<lambda>pf.
                       Inr (setitem ''profiling_file'' pf (setitem ''profiling'' p t5)))
                else Inr (setitem ''profiling'' p t5)) = Inr t"
    and "k \<noteq> ''profiling_file''"
  shows "map_of t k =
           (if k = ''profiling'' \<and> map_of jdata ''profiling'' \<noteq> None
            then map_of jdata ''profiling'' else map_of t5 k)"
  using assms
  by (auto simp: rbind_Inr_iff map_of_setitem split: option.splits if_splits)

lemma training_optional_keys:
  assumes "training jdata = Inr t"
  shows "map_of t ''seed'' = map_of (copy_seed jdata []) ''seed'' \<and>
         map_of t ''profiling'' = map_of jdata ''profiling''"
proof -
  from assms obtain t5 where
    tail: "(case map_of jdata ''profiling'' of
              None \<Rightarrow> Inr t5
            | Some p \<Rightarrow>
                if truthy p
                then rbind (getitem jdata ''profiling_file'') (\<lambda>pf.
                       Inr (setitem ''profiling_file'' pf (setitem ''profiling'' p t5)))
                else Inr (setitem ''profiling'' p t5)) = Inr t"
    and t5: "\<exists>a b c d e f. t5 =
       setitem ''time_training'' a (setitem ''disp_training'' b (setitem ''save_ckpt'' c
         (setitem ''save_freq'' d (setitem ''numb_test'' e (setitem ''disp_freq'' f
           (case map_of jdata ''disp_file'' of
              None \<Rightarrow> setitem ''disp_file'' (JStr ''lcurve.out'')
                        (jcopy jdata (copy_seed jdata [])
                           [''systems'', ''set_prefix'', ''stop_batch'', ''batch_size''])
            | Some v \<Rightarrow> setitem ''disp_file'' v
                (setitem ''disp_file'' (JStr ''lcurve.out'')
                  (jcopy jdata (copy_seed jdata [])
                     [''systems'', ''set_prefix'', ''stop_batch'', ''batch_size'']))))))))"
    unfolding training_def Let_def rbind_Inr_iff by blast
  from t5 have "map_of t5 ''seed'' = map_of (copy_seed jdata []) ''seed''"
    and "map_of t5 ''profiling'' = None"
    by (auto simp: map_of_setitem map_of_jcopy map_of_copy_seed
             simp del: jcopy.simps split: option.splits)
  with training_tail [OF tail, of "''seed''"] training_tail [OF tail, of "''profiling''"]
  show ?thesis by (cases "map_of jdata ''profiling''") simp_all
qed

lemma j_deprecated_returns:
  assumes "has_key jdata key \<or> has_key jdata alias"
  shows "\<exists>v. j_deprecated jdata key [alias] = Inr v"
proof (cases "map_of jdata key")
  case None
  with assms show ?thesis by (auto simp: has_key_map_of j_deprecated_Inr_iff)
next
  case (Some v)
  then show ?thesis by (auto simp: j_deprecated_Inr_iff)
qed

lemma smth_descriptor_returns:
  assumes "has_key jdata ''sel_a''" and "has_key jdata ''rcut''"
    and "has_key jdata ''filter_neuron''"
    and "has_key jdata ''axis_neuron'' \<or> has_key jdata ''n_axis_neuron''"
    and "has_key jdata ''resnet_dt'' \<longrightarrow> has_key jdata ''filter_resnet_dt''"
  shows "\<exists>d. smth_descriptor jdata = Inr d"
proof -
  from assms(1-3) obtain sel rc n where k: "map_of jdata ''sel_a'' = Some sel"
    "map_of jdata ''rcut'' = Some rc" "map_of jdata ''filter_neuron'' = Some n"
    by (auto simp: has_key_map_of)
  from j_deprecated_returns [OF assms(4)] obtain ax where
    ax: "j_deprecated jdata ''axis_neuron'' [''n_axis_neuron''] = Inr ax"
    by blast
  show ?thesis
  proof (cases "has_key jdata ''resnet_dt''")
    case False
    with k ax show ?thesis
      by (simp add: smth_descriptor_def Let_def getitem_def map_of_jcopy del: jcopy.simps)
  next
    case True
    with assms(5) obtain dt where "map_of jdata ''filter_resnet_dt'' = Some dt"
      by (auto simp: has_key_map_of)
    with True k ax show ?thesis
      by (simp add: smth_descriptor_def Let_def getitem_def map_of_jcopy del: jcopy.simps)
  qed
qed

lemma smth_descriptor_required:
  assumes "smth_descriptor jdata = Inr d"
  shows "has_key jdata ''sel_a'' \<and> has_key jdata ''rcut'' \<and> has_key jdata ''filter_neuron'' \<and>
         (has_key jdata ''axis_neuron'' \<or> has_key jdata ''n_axis_neuron'')"
proof -
  from assms obtain sel rc n ax where
    "getitem jdata ''sel_a'' = Inr sel"
    "getitem (jcopy jdata (setitem ''sel'' sel
        (setitem ''type'' (JStr ''se_a'') (copy_seed jdata []))) [''rcut'']) ''rcut'' = Inr rc"
    "getitem jdata ''filter_neuron'' = Inr n"
    "j_deprecated jdata ''axis_neuron'' [''n_axis_neuron''] = Inr ax"
    unfolding smth_descriptor_def Let_def rbind_Inr_iff by blast
  then show ?thesis
    by (auto simp: getitem_Inr_iff has_key_map_of j_deprecated_Inr_iff map_of_jcopy
                   map_of_setitem map_of_copy_seed
             simp del: jcopy.simps split: if_splits)
qed

lemma fitting_net_returns:
  assumes "has_key jdata ''fitting_neuron'' \<or> has_key jdata ''n_neuron''"
  shows "\<exists>f. fitting_net jdata = Inr f"
proof -
  from j_deprecated_returns [OF assms] obtain n where
    "j_deprecated jdata ''fitting_neuron'' [''n_neuron''] = Inr n"
    by blast
  then show ?thesis by (simp add: fitting_net_def Let_def)
qed

lemma fitting_net_required:
  assumes "fitting_net jdata = Inr f"
  shows "has_key jdata ''fitting_neuron'' \<or> has_key jdata ''n_neuron''"
proof -
  from assms obtain n where "j_deprecated jdata ''fitting_neuron'' [''n_neuron''] = Inr n"
    unfolding fitting_net_def Let_def rbind_Inr_iff by blast
  then show ?thesis by (auto simp: has_key_map_of j_deprecated_Inr_iff)
qed

text \<open>
  Claim C4, as amended. The loss transformation never fails. Each of the six prefactor
  keys, and each of \<open>start_pref_ae\<close> and \<open>limit_pref_ae\<close>, is in the loss output exactly
  when it is in the source, with the source's value; no other key is in the output.
\<close>

theorem loss_copies_present:
  "map_of (loss jdata) k =
     (if k \<in> set [''start_pref_e'', ''limit_pref_e'', ''start_pref_f'', ''limit_pref_f'',
                  ''start_pref_v'', ''limit_pref_v'', ''start_pref_ae'', ''limit_pref_ae'']
      then map_of jdata k else None)"
  by (rule map_of_loss)

text \<open>
  A source without any of the six prefactor keys goes through: the loss output is empty
  and the v0 to v1 migration returns a document.
\<close>

theorem loss_never_fails:
  "\<not> has_key v0_example ''start_pref_e'' \<and> loss v0_example = [] \<and>
   (case fst (convert_input_v0_v1 v0_example False None world0) of
      Inl e \<Rightarrow> False
    | Inr output \<Rightarrow> map_of output ''loss'' = Some (JDict []))"
  by code_simp

text \<open>
  Claim C5. The smooth-descriptor transformation returns exactly when the source has
  \<open>sel_a\<close>, \<open>rcut\<close>, \<open>filter_neuron\<close>, one of \<open>axis_neuron\<close> and \<open>n_axis_neuron\<close>, and,
  if it has \<open>resnet_dt\<close>, also \<open>filter_resnet_dt\<close>. The output's \<open>resnet_dt\<close> is then
  \<open>False\<close> when the source has no \<open>resnet_dt\<close> key, and the source's \<open>filter_resnet_dt\<close>
  when it has one: the presence test is on one key and the value is read from the other.
\<close>

theorem smth_descriptor_resnet_dt:
  "((\<exists>d. smth_descriptor jdata = Inr d) \<longleftrightarrow>
      has_key jdata ''sel_a'' \<and> has_key jdata ''rcut'' \<and> has_key jdata ''filter_neuron'' \<and>
      (has_key jdata ''axis_neuron'' \<or> has_key jdata ''n_axis_neuron'') \<and>
      (has_key jdata ''resnet_dt'' \<longrightarrow> has_key jdata ''filter_resnet_dt'')) \<and>
   (\<forall>d. smth_descriptor jdata = Inr d \<longrightarrow>
      map_of d ''resnet_dt'' =
        (if has_key jdata ''resnet_dt'' then map_of jdata ''filter_resnet_dt''
         else Some (JBool False)))"
  using smth_descriptor_returns [of jdata] smth_descriptor_required [of jdata]
    map_of_smth_descriptor_resnet_dt [of jdata]
  by blast

text \<open>
  Both cases are produced: with \<open>resnet_dt=False\<close> and \<open>filter_resnet_dt=True\<close> the
  output has \<open>True\<close>; with \<open>filter_resnet_dt=True\<close> alone it has the default \<open>False\<close>.
\<close>

theorem smth_descriptor_resnet_dt_witness:
  "(\<exists>d. smth_descriptor smth_example = Inr d \<and> map_of d ''resnet_dt'' = Some (JBool True)) \<and>
   (\<exists>d. smth_descriptor smth_default_example = Inr d \<and>
        map_of d ''resnet_dt'' = Some (JBool False)) \<and>
   map_of smth_example ''resnet_dt'' = Some (JBool False) \<and>
   map_of smth_default_example ''filter_resnet_dt'' = Some (JBool True)"
  using smth_descriptor_resnet_dt [of smth_example]
    smth_descriptor_resnet_dt [of smth_default_example]
  by (auto simp: smth_example_def smth_default_example_def has_key_def)

text \<open>
  Claim C6. The fitting-net transformation returns exactly when the source has one of
  \<open>fitting_neuron\<close> and \<open>n_neuron\<close>. The output's \<open>resnet_dt\<close> is then the source's
  \<open>fitting_resnet_dt\<close> whenever that key is present, else the source's \<open>resnet_dt\<close>
  when that one is present, else \<open>True\<close>.
\<close>

theorem fitting_net_resnet_dt:
  "((\<exists>f. fitting_net jdata = Inr f) \<longleftrightarrow>
      has_key jdata ''fitting_neuron'' \<or> has_key jdata ''n_neuron'') \<and>
   (\<forall>f. fitting_net jdata = Inr f \<longrightarrow>
      map_of f ''resnet_dt'' =
        (case map_of jdata ''fitting_resnet_dt'' of
           Some v \<Rightarrow> Some v
         | None \<Rightarrow> (case map_of jdata ''resnet_dt'' of
                      Some v \<Rightarrow> Some v
                    | None \<Rightarrow> Some (JBool True))))"
  using fitting_net_returns [of jdata] fitting_net_required [of jdata]
    map_of_fitting_net_resnet_dt [of jdata]
  by blast

text \<open>
  The three cases are produced: \<open>fitting_resnet_dt=True\<close> with \<open>resnet_dt=False\<close> gives
  \<open>True\<close>, \<open>resnet_dt=False\<close> alone gives \<open>False\<close>, and neither key gives \<open>True\<close>.
\<close>

theorem fitting_net_resnet_dt_witness:
  "(\<exists>f. fitting_net fit_example = Inr f \<and> map_of f ''resnet_dt'' = Some (JBool True)) \<and>
   (\<exists>f. fitting_net fit_resnet_only_example = Inr f \<and>
        map_of f ''resnet_dt'' = Some (JBool False)) \<and>
   (\<exists>f. fitting_net fit_default_example = Inr f \<and>
        map_of f ''resnet_dt'' = Some (JBool True)) \<and>
   map_of fit_example ''fitting_resnet_dt'' = Some (JBool True) \<and>
   map_of fit_example ''resnet_dt'' = Some (JBool False)"
  using fitting_net_resnet_dt [of fit_example] fitting_net_resnet_dt [of fit_resnet_only_example]
    fitting_net_resnet_dt [of fit_default_example]
  by (auto simp: fit_example_def fit_resnet_only_example_def fit_default_example_def
                 has_key_def)

text \<open>
  Claim C8, as amended. When the transformer in question returns: \<open>seed\<close> is in the
  smooth-descriptor, fitting-net and training outputs exactly when it is a key of the
  source with a value other than \<open>None\<close>, and then with the source's value;
  \<open>profiling\<close> is in the training output, and \<open>start_pref_ae\<close> and \<open>limit_pref_ae\<close>
  are in the loss output, exactly when they are keys of the source, with the source's
  value. \<open>resnet_dt\<close> is in the descriptor and fitting-net outputs in every case.
\<close>

theorem optional_fields_carried:
  "(smth_descriptor jdata = Inr d \<longrightarrow>
      map_of d ''seed'' = (case map_of jdata ''seed'' of
                             None \<Rightarrow> None
                           | Some v \<Rightarrow> if v = JNull then None else Some v) \<and>
      map_of d ''resnet_dt'' \<noteq> None) \<and>
   (fitting_net jdata = Inr f \<longrightarrow>
      map_of f ''seed'' = (case map_of jdata ''seed'' of
                             None \<Rightarrow> None
                           | Some v \<Rightarrow> if v = JNull then None else Some v) \<and>
      map_of f ''resnet_dt'' \<noteq> None) \<and>
   (training jdata = Inr t \<longrightarrow>
      map_of t ''seed'' = (case map_of jdata ''seed'' of
                             None \<Rightarrow> None
                           | Some v \<Rightarrow> if v = JNull then None else Some v) \<and>
      map_of t ''profiling'' = map_of jdata ''profiling'') \<and>
   map_of (loss jdata) ''start_pref_ae'' = map_of jdata ''start_pref_ae'' \<and>
   map_of (loss jdata) ''limit_pref_ae'' = map_of jdata ''limit_pref_ae''"
proof -
  have seed: "map_of (copy_seed jdata []) ''seed'' =
                (case map_of jdata ''seed'' of
                   None \<Rightarrow> None
                 | Some v \<Rightarrow> if v = JNull then None else Some v)"
    by (simp add: map_of_copy_seed split: option.splits)
  have "map_of d ''seed'' = map_of (copy_seed jdata []) ''seed'' \<and> map_of d ''resnet_dt'' \<noteq> None"
    if "smth_descriptor jdata = Inr d"
    using smth_descriptor_other_keys [OF that, of "''seed''"] map_of_smth_descriptor_resnet_dt [OF that]
    by (auto simp: has_key_map_of)
  moreover
  have "map_of f ''seed'' = map_of (copy_seed jdata []) ''seed'' \<and> map_of f ''resnet_dt'' \<noteq> None"
    if "fitting_net jdata = Inr f"
    using fitting_net_other_keys [OF that, of "''seed''"] map_of_fitting_net_resnet_dt [OF that]
    by (auto split: option.splits)
  moreover
  have "map_of (loss jdata) ''start_pref_ae'' = map_of jdata ''start_pref_ae''"
    and "map_of (loss jdata) ''limit_pref_ae'' = map_of jdata ''limit_pref_ae''"
    by (simp_all add: map_of_loss)
  ultimately show ?thesis
    using training_optional_keys [of jdata t] seed by simp
qed

theorem optional_fields_carried_witness:
  "map_of v0_seeded_example ''seed'' = Some (JInt 7) \<and>
   map_of v0_seeded_example ''profiling'' = Some (JBool False) \<and>
   smth_descriptor v0_seeded_example =
     Inr [(''seed'', JInt 7), (''type'', JStr ''se_a''), (''sel'', JList [JInt 16]),
          (''rcut'', JInt 6), (''rcut_smth'', JInt 6), (''neuron'', JList [JInt 10]),
          (''axis_neuron'', JInt 4), (''resnet_dt'', JBool False)] \<and>
   fitting_net v0_seeded_example =
     Inr [(''seed'', JInt 7), (''neuron'', JList [JInt 20]), (''resnet_dt'', JBool True)] \<and>
   training v0_seeded_example =
     Inr [(''seed'', JInt 7), (''systems'', JList [JStr ''data'']),
          (''stop_batch'', JInt 100), (''batch_size'', JInt 1),
          (''disp_file'', JStr ''lcurve.out''), (''disp_freq'', JInt 10),
          (''numb_test'', JInt 5), (''save_freq'', JInt 10),
          (''save_ckpt'', JStr ''model.ckpt''), (''disp_training'', JBool True),
          (''time_training'', JBool True), (''profiling'', JBool False)]"
proof -
  have s: "smth_descriptor v0_seeded_example =
     Inr [(''seed'', JInt 7), (''type'', JStr ''se_a''), (''sel'', JList [JInt 16]),
          (''rcut'', JInt 6), (''rcut_smth'', JInt 6), (''neuron'', JList [JInt 10]),
          (''axis_neuron'', JInt 4), (''resnet_dt'', JBool False)]"
    by code_simp
  have f: "fitting_net v0_seeded_example =
     Inr [(''seed'', JInt 7), (''neuron'', JList [JInt 20]), (''resnet_dt'', JBool True)]"
    by code_simp
  have t: "training v0_seeded_example =
     Inr [(''seed'', JInt 7), (''systems'', JList [JStr ''data'']),
          (''stop_batch'', JInt 100), (''batch_size'', JInt 1),
          (''disp_file'', JStr ''lcurve.out''), (''disp_freq'', JInt 10),
          (''numb_test'', JInt 5), (''save_freq'', JInt 10),
          (''save_ckpt'', JStr ''model.ckpt''), (''disp_training'', JBool True),
          (''time_training'', JBool True), (''profiling'', JBool False)]"
    by code_simp
  have k: "map_of v0_seeded_example ''seed'' = Some (JInt 7)"
    "map_of v0_seeded_example ''profiling'' = Some (JBool False)"
    by (simp_all add: v0_seeded_example_def)
  from optional_fields_carried
         [of v0_seeded_example
             "[(''seed'', JInt 7), (''type'', JStr ''se_a''), (''sel'', JList [JInt 16]),
               (''rcut'', JInt 6), (''rcut_smth'', JInt 6), (''neuron'', JList [JInt 10]),
               (''axis_neuron'', JInt 4), (''resnet_dt'', JBool False)]"
             "[(''seed'', JInt 7), (''neuron'', JList [JInt 20]), (''resnet_dt'', JBool True)]"]
       s f t k
  show ?thesis by simp
qed

text \<open>
  A source with \<open>seed\<close> set to \<open>None\<close> and no \<open>resnet_dt\<close>: the fitting-net output has
  no \<open>seed\<close>, and it has a \<open>resnet_dt\<close>.
\<close>

theorem null_seed_dropped:
  "has_key null_seed_example ''seed'' \<and> \<not> has_key null_seed_example ''resnet_dt'' \<and>
   fitting_net null_seed_example =
     Inr [(''neuron'', JList [JInt 20]), (''resnet_dt'', JBool True)]"
  by code_simp

section \<open>The learning-rate cleanup\<close>

text \<open>
  What \<open>remove_decay_rate\<close> does to the document, whatever the float arithmetic gives:
  without \<open>decay_rate\<close> nothing changes; with it and the three other keys, \<open>stop_lr\<close>
  is stored and \<open>decay_rate\<close> removed; without \<open>start_lr\<close> the call raises.
\<close>

lemma remove_decay_rate_absent:
  assumes "map_of jdata ''learning_rate'' = Some (JDict lr)"
    and "\<not> has_key lr ''decay_rate''"
  shows "remove_decay_rate np jdata = Inr jdata"
  using assms by (simp add: remove_decay_rate_def getitem_def)

lemma remove_decay_rate_effect:
  assumes "map_of jdata ''learning_rate'' = Some (JDict lr)"
    and "map_of lr ''decay_rate'' = Some decay_rate"
    and "map_of lr ''start_lr'' = Some start_lr"
    and "map_of jdata ''training'' = Some (JDict tr)"
    and "map_of tr ''stop_batch'' = Some stop_step"
    and "map_of lr ''decay_steps'' = Some decay_steps"
    and "np decay_rate stop_step decay_steps start_lr = Inr stop_lr"
  shows "remove_decay_rate np jdata =
           Inr (setitem ''learning_rate''
                  (JDict (dict_pop ''decay_rate'' (setitem ''stop_lr'' stop_lr lr))) jdata)"
  using assms by (simp add: remove_decay_rate_def getitem_def has_key_map_of)

lemma remove_decay_rate_raised:
  assumes "map_of jdata ''learning_rate'' = Some (JDict lr)"
    and "map_of lr ''decay_rate'' = Some decay_rate"
    and "map_of lr ''start_lr'' = None"
  shows "remove_decay_rate np jdata = Inl (KeyError ''start_lr'')"
  using assms by (simp add: remove_decay_rate_def getitem_def has_key_map_of)

section \<open>The pruner applied twice\<close>




section \<open>Warnings along the migration chain\<close>

lemma v0_v1_warns:
  "warns (snd (convert_input_v0_v1 jdata warning None w)) =
     (case fst (convert_input_v0_v1 jdata warning None w) of
        Inl e \<Rightarrow> warns w
      | Inr output \<Rightarrow> if warning then warns w @ [msg_input_v0_v1 None] else warns w)"
  by (simp add: convert_input_v0_v1_world split: sum.splits)

lemma v1_v2_warns:
  "warns (world_after (convert_input_v1_v2 np jdata warning None w)) =
     (case returned (convert_input_v1_v2 np jdata warning None w) of
        Inl e \<Rightarrow> warns w
      | Inr jdata2 \<Rightarrow> if warning then warns w @ [msg_input_v1_v2 None] else warns w)"
proof (cases "returned (convert_input_v1_v2 np jdata warning None w)")
  case (Inl e)
  then show ?thesis using convert_input_v1_v2_raised [OF Inl] by simp
next
  case (Inr j)
  then show ?thesis using convert_input_v1_v2_returned [OF Inr] by simp
qed

lemma numb_test_silent:
  "warns (world_after (deprecate_numb_test jdata False dump w)) = warns w"
  using numb_test_warns [of jdata False dump w] by simp

text \<open>
  Claim C1. With \<open>warning=True\<close>, \<open>update_deepmd_input\<close> emits at most one deprecation
  warning, and it is the one of the first stage that runs: the v0 message (without a
  file name, the dump path being withheld from that stage) for a v0-detected document,
  the v1 message for a v1-detected one, the \<open>numb_test\<close> message of the pruner otherwise.
  The chained stages, called with \<open>warning=False\<close>, add nothing. The warnings counted are
  those the module emits itself.
\<close>

theorem update_deepmd_input_warns_once:
  "warns (world_after (update_deepmd_input np jdata True dump w)) = warns w \<or>
   warns (world_after (update_deepmd_input np jdata True dump w)) =
     warns w @ [if is_deepmd_v0_input jdata then msg_input_v0_v1 None
                else if is_deepmd_v1_input jdata = Inr True then msg_input_v1_v2 None
                else msg_numb_test]"
proof (cases "is_deepmd_v0_input jdata")
  case True
  obtain r1 w1 where c1: "convert_input_v0_v1 jdata True None w = (r1, w1)"
    by (cases "convert_input_v0_v1 jdata True None w")
  show ?thesis
  proof (cases r1)
    case (Inl e)
    with c1 True v0_v1_warns [of jdata True w] show ?thesis
      by (simp add: update_deepmd_input_def)
  next
    case (Inr jdata1)
    with c1 v0_v1_warns [of jdata True w]
    have w1: "warns w1 = warns w @ [msg_input_v0_v1 None]" by simp
    have "warns (world_after (convert_input_v1_v2 np jdata1 False None w1)) = warns w1"
      using v1_v2_warns [of np jdata1 False w1] by (simp split: sum.splits)
    with c1 True Inr w1 show ?thesis
      by (simp add: update_deepmd_input_def Let_def numb_test_silent split: sum.splits)
  qed
next
  case False
  show ?thesis
  proof (cases "is_deepmd_v1_input jdata")
    case (Inl e)
    with False show ?thesis by (simp add: update_deepmd_input_def)
  next
    case (Inr v1)
    show ?thesis
    proof (cases v1)
      case True
      with False Inr v1_v2_warns [of np jdata True w] show ?thesis
        by (simp add: update_deepmd_input_def Let_def numb_test_silent split: sum.splits)
    next
      case v2: False
      with False Inr numb_test_warns [of jdata True dump w] show ?thesis
        by (auto simp: update_deepmd_input_def)
    qed
  qed
qed

theorem update_deepmd_input_warns_once_witness:
  "warns (world_after (update_deepmd_input no_numpy v0_example True (Some ''out.json'') world0))
     = [msg_input_v0_v1 None]"
proof -
  have ne: "warns (world_after
              (update_deepmd_input no_numpy v0_example True (Some ''out.json'') world0))
            \<noteq> warns world0"
    by code_simp
  have v0: "is_deepmd_v0_input v0_example" by code_simp
  from update_deepmd_input_warns_once [of no_numpy v0_example "Some ''out.json''" world0] ne v0
  show ?thesis by (simp add: world0_def)
qed

section \<open>The conflict check of the v1 to v2 migration\<close>

text \<open>
  Claim C2. When the \<open>training\<close> sub-document contains a \<open>training_data\<close> key,
  \<open>convert_input_v1_v2\<close> raises the \<open>RuntimeError\<close> with its descriptive message, for
  either value of the warning flag and with or without a dump path; the document, the
  warnings and the files are as before the call.
\<close>

theorem convert_input_v1_v2_conflict:
  assumes "map_of jdata ''training'' = Some (JDict tr)" and "has_key tr ''training_data''"
  shows "convert_input_v1_v2 np jdata warning dump w =
           \<lparr>returned = Inl (RuntimeError msg_v1_v2_conflict), arg_after = jdata,
            world_after = w\<rparr>"
  using assms by (rule v1_v2_conflict)

theorem convert_input_v1_v2_conflict_witness:
  "convert_input_v1_v2 no_numpy conflict_example False (Some ''out.json'') world0 =
     \<lparr>returned = Inl (RuntimeError msg_v1_v2_conflict), arg_after = conflict_example,
      world_after = world0\<rparr>"
  by (rule convert_input_v1_v2_conflict
        [of conflict_example
            "[(''systems'', JList [JStr ''data'']),
              (''training_data'', JDict [(''systems'', JList [JStr ''data''])])]"])
     (simp_all add: conflict_example_def has_key_def)

section \<open>Failed calls\<close>




section \<open>Version detection\<close>

text \<open>
  Claim C10. A document with a top-level \<open>model\<close> key and no top-level \<open>training\<close> key
  makes \<open>update_deepmd_input\<close> raise \<open>KeyError\<close> for \<open>training\<close> while it detects the
  version: no stage has run, so the document and the world are untouched.
\<close>

theorem update_deepmd_input_no_training:
  assumes "has_key jdata ''model''" and "\<not> has_key jdata ''training''"
  shows "update_deepmd_input np jdata warning dump w =
           \<lparr>returned = Inl (KeyError ''training''), arg_after = jdata, world_after = w\<rparr>"
  using assms
  by (simp add: update_deepmd_input_def is_deepmd_v0_input_def is_deepmd_v1_input_def
                getitem_def has_key_map_of)

theorem update_deepmd_input_no_training_witness:
  "update_deepmd_input no_numpy [(''model'', JDict [])] True None world0 =
     \<lparr>returned = Inl (KeyError ''training''), arg_after = [(''model'', JDict [])],
      world_after = world0\<rparr>"
  by (rule update_deepmd_input_no_training) (simp_all add: has_key_def)

end
